theory Spec2Isabelle
  imports Main
begin

section \<open>PyShell: a shallow embedding of \<^verbatim>\<open>main.py\<close>\<close>

text \<open>
  The program is a small interactive shell: a registry of five builtin commands, a
  search of the executable path, a completion callback and the dispatch of one input
  line. Every function of the source is translated below under its own name. What the
  program asks of the Python library and of the operating system is made explicit:

  \<^item> text is a \<open>string\<close>; the whitespace of \<^verbatim>\<open>str.split()\<close>, \<^verbatim>\<open>str.strip()\<close> and
    \<^verbatim>\<open>int()\<close> is the whitespace of ASCII text;
  \<^item> the answers of the operating system during one call (the environment, the file
    system tests, the outcome of \<^verbatim>\<open>os.chdir\<close> and of \<^verbatim>\<open>subprocess.run\<close>) are the
    fields of a record \<open>os_view\<close>, a parameter of every function that consults it;
  \<^item> what the process changes (the text written to standard output and the working
    directory) is a record \<open>proc_state\<close>, passed in and returned;
  \<^item> an exception is a value: a function that can raise returns an \<open>outcome\<close>.
\<close>

subsection \<open>Python strings\<close>

text \<open>
  \<^verbatim>\<open>str.isspace\<close> on one ASCII character: the codes 9 to 13 (tab, line feed, vertical
  tab, form feed, carriage return), 28 to 31 (the separators) and 32 (space).
\<close>

definition isspace :: "char \<Rightarrow> bool" where
  "isspace c = (let n = (of_char c :: nat) in (9 \<le> n \<and> n \<le> 13) \<or> (28 \<le> n \<and> n \<le> 32))"

text \<open>\<^verbatim>\<open>s.strip()\<close>: leading and trailing whitespace removed.\<close>

definition strip :: "string \<Rightarrow> string" where
  "strip s = rev (dropWhile isspace (rev (dropWhile isspace s)))"

text \<open>
  \<^verbatim>\<open>s.split()\<close> with no separator: the maximal runs of characters that are not
  whitespace, in order; no token is empty. \<open>cur\<close> is the token being read.
\<close>

fun split_ws_from :: "string \<Rightarrow> string \<Rightarrow> string list" where
  "split_ws_from cur [] = (if cur = [] then [] else [cur])"
| "split_ws_from cur (c # cs) =
     (if isspace c
      then (if cur = [] then split_ws_from [] cs else cur # split_ws_from [] cs)
      else split_ws_from (cur @ [c]) cs)"

definition split_ws :: "string \<Rightarrow> string list" where
  "split_ws s = split_ws_from [] s"

text \<open>
  \<^verbatim>\<open>s.split(sep)\<close> with a separator of one character: the pieces between the
  separators, empty pieces kept; the empty string splits into one empty piece.
\<close>

fun split_on :: "char \<Rightarrow> string \<Rightarrow> string list" where
  "split_on sep [] = [[]]"
| "split_on sep (c # cs) =
     (if c = sep then [] # split_on sep cs
      else (case split_on sep cs of
              [] \<Rightarrow> [[c]]
            | w # ws \<Rightarrow> (c # w) # ws))"

text \<open>\<^verbatim>\<open>s.startswith(p)\<close>.\<close>

definition startswith :: "string \<Rightarrow> string \<Rightarrow> bool" where
  "startswith s p = (take (length p) s = p)"

text \<open>\<^verbatim>\<open>sep.join(xs)\<close>.\<close>

fun str_join :: "string \<Rightarrow> string list \<Rightarrow> string" where
  "str_join sep [] = []"
| "str_join sep [x] = x"
| "str_join sep (x # y # ys) = x @ sep @ str_join sep (y # ys)"

text \<open>
  \<^verbatim>\<open>int(s)\<close> in base ten on ASCII text: surrounding whitespace is dropped, one sign
  is allowed, then decimal digits, where a single underscore may stand between two
  digits. \<open>None\<close> is the \<^verbatim>\<open>ValueError\<close>. (The interpreter's configurable limit on the
  number of digits, which also raises \<^verbatim>\<open>ValueError\<close>, is not part of the model.)
\<close>

definition isdigit :: "char \<Rightarrow> bool" where
  "isdigit c = (let n = (of_char c :: nat) in 48 \<le> n \<and> n \<le> 57)"

definition digit_value :: "char \<Rightarrow> int" where
  "digit_value c = int (of_char c) - 48"

fun parse_digits :: "int \<Rightarrow> bool \<Rightarrow> string \<Rightarrow> int option" where
  "parse_digits acc after_digit [] = (if after_digit then Some acc else None)"
| "parse_digits acc after_digit (c # cs) =
     (if isdigit c then parse_digits (acc * 10 + digit_value c) True cs
      else if c = CHR ''_'' \<and> after_digit \<and> cs \<noteq> [] \<and> isdigit (hd cs)
           then parse_digits acc False cs
      else None)"

definition py_int :: "string \<Rightarrow> int option" where
  "py_int s =
     (case strip s of
        [] \<Rightarrow> None
      | c # cs \<Rightarrow>
          if c = CHR ''+'' then parse_digits 0 False cs
          else if c = CHR ''-'' then map_option uminus (parse_digits 0 False cs)
          else parse_digits 0 False (c # cs))"

text \<open>\<^verbatim>\<open>xs[i]\<close> on a list: a negative index counts from the end; \<open>None\<close> is the
  \<^verbatim>\<open>IndexError\<close>.\<close>

definition py_index :: "'a list \<Rightarrow> int \<Rightarrow> 'a option" where
  "py_index xs i =
     (let n = int (length xs); j = (if i < 0 then n + i else i)
      in if 0 \<le> j \<and> j < n then Some (xs ! nat j) else None)"

subsection \<open>The operating system and the process\<close>

text \<open>
  An \<^verbatim>\<open>OSError\<close> as the handlers of the source tell them apart: the two subclasses
  they name, and every other one. The text is \<^verbatim>\<open>str(e)\<close>.
\<close>

datatype os_error =
    FileNotFoundError string
  | NotADirectoryError string
  | OtherOSError string

fun os_error_str :: "os_error \<Rightarrow> string" where
  "os_error_str (FileNotFoundError m) = m"
| "os_error_str (NotADirectoryError m) = m"
| "os_error_str (OtherOSError m) = m"

text \<open>The \<^verbatim>\<open>CompletedProcess\<close> of \<^verbatim>\<open>subprocess.run(..., capture_output=True, text=True)\<close>.\<close>

record completed_process =
  returncode :: int
  cp_stdout :: string
  cp_stderr :: string

text \<open>
  What the operating system answers during one call. \<open>sys_chdir\<close> gives the new
  working directory or the error \<^verbatim>\<open>os.chdir\<close> raises; \<open>sys_run\<close> gives the finished
  child of \<^verbatim>\<open>subprocess.run\<close> before \<^verbatim>\<open>check=True\<close> is applied, or the error of the
  launch; \<open>fs_listdir\<close> gives the names in a directory in the order the system lists
  them. File system tests take the text of the path.
\<close>

record os_view =
  environ_PATH :: "string option"
  fs_exists :: "string \<Rightarrow> bool"
  fs_access_X_OK :: "string \<Rightarrow> bool"
  fs_is_dir :: "string \<Rightarrow> bool"
  fs_listdir :: "string \<Rightarrow> os_error + string list"
  expanduser_home :: string
  sys_chdir :: "string \<Rightarrow> os_error + string"
  sys_run :: "string list \<Rightarrow> os_error + completed_process"

text \<open>What the process changes: the text written to standard output, and the
  working directory (\<^verbatim>\<open>os.getcwd()\<close>).\<close>

record proc_state =
  stdout :: string
  cwd :: string

datatype py_exception =
    SystemExit int
  | IndexError
  | AttributeError
  | OSError os_error

text \<open>A call returns, or raises an exception that no handler of the callee catches.\<close>

datatype outcome =
    Returns proc_state
  | Raises py_exception proc_state

text \<open>\<^verbatim>\<open>print(s, end="")\<close> and \<^verbatim>\<open>print(s)\<close>.\<close>

definition py_print_noend :: "string \<Rightarrow> proc_state \<Rightarrow> proc_state" where
  "py_print_noend s st = st\<lparr>stdout := stdout st @ s\<rparr>"

definition py_print :: "string \<Rightarrow> proc_state \<Rightarrow> proc_state" where
  "py_print s st = st\<lparr>stdout := stdout st @ s @ [CHR 0x0A]\<rparr>"

text \<open>
  \<^verbatim>\<open>os.path.exists\<close>: the empty path names no file (the system call fails on it), every
  other path is the file system's to answer.
\<close>

definition os_path_exists :: "os_view \<Rightarrow> string \<Rightarrow> bool" where
  "os_path_exists os p = (p \<noteq> [] \<and> fs_exists os p)"

definition os_access_X_OK :: "os_view \<Rightarrow> string \<Rightarrow> bool" where
  "os_access_X_OK os p = fs_access_X_OK os p"

text \<open>\<^verbatim>\<open>os.pathsep\<close> and \<^verbatim>\<open>os.path.join(a, b)\<close> of a POSIX platform.\<close>

definition os_pathsep :: char where
  "os_pathsep = CHR '':''"

definition os_path_join :: "string \<Rightarrow> string \<Rightarrow> string" where
  "os_path_join a b =
     (if startswith b ''/'' then b
      else if a = [] \<or> last a = CHR ''/'' then a @ b
      else a @ ''/'' @ b)"

subsection \<open>\<^verbatim>\<open>pathlib.Path\<close>\<close>

text \<open>
  A path of \<^verbatim>\<open>pathlib\<close> on a POSIX platform, as far as the completer builds them:
  whether it starts at the root, and its components. \<^verbatim>\<open>Path('.')\<close> has no component
  and no root, \<^verbatim>\<open>Path('/')\<close> has the root and no component.
\<close>

record path =
  path_rooted :: bool
  path_parts :: "string list"

definition Path_dot :: path where
  "Path_dot = \<lparr>path_rooted = False, path_parts = []\<rparr>"

definition Path_root :: path where
  "Path_root = \<lparr>path_rooted = True, path_parts = []\<rparr>"

text \<open>\<^verbatim>\<open>p.parent\<close> drops the last component; a path with none is its own parent.\<close>

definition path_parent :: "path \<Rightarrow> path" where
  "path_parent p = p\<lparr>path_parts := butlast (path_parts p)\<rparr>"

text \<open>\<^verbatim>\<open>p / name\<close> for one plain component (not empty, not \<^verbatim>\<open>.\<close>, without a slash):
  the only arguments the source and \<^verbatim>\<open>iterdir\<close> give it.\<close>

definition path_child :: "path \<Rightarrow> string \<Rightarrow> path" where
  "path_child p name = p\<lparr>path_parts := path_parts p @ [name]\<rparr>"

text \<open>\<^verbatim>\<open>p.name\<close> and \<^verbatim>\<open>str(p)\<close>.\<close>

definition path_name :: "path \<Rightarrow> string" where
  "path_name p = (if path_parts p = [] then [] else last (path_parts p))"

definition path_str :: "path \<Rightarrow> string" where
  "path_str p =
     (if path_rooted p then ''/'' @ str_join ''/'' (path_parts p)
      else if path_parts p = [] then ''.''
      else str_join ''/'' (path_parts p))"

definition path_is_dir :: "os_view \<Rightarrow> path \<Rightarrow> bool" where
  "path_is_dir os p = fs_is_dir os (path_str p)"

text \<open>\<^verbatim>\<open>p.iterdir()\<close>, read to its end: the children of \<open>p\<close>, or the error of the listing.\<close>

definition path_iterdir :: "os_view \<Rightarrow> path \<Rightarrow> os_error + path list" where
  "path_iterdir os p =
     (case fs_listdir os (path_str p) of
        Inl e \<Rightarrow> Inl e
      | Inr names \<Rightarrow> Inr (map (path_child p) names))"

subsection \<open>\<^verbatim>\<open>PathResolver\<close>\<close>

text \<open>
  \<^verbatim>\<open>findinpath\<close>: the \<^verbatim>\<open>for\<close> loop over the directories is \<open>findinpath_loop\<close>;
  \<^verbatim>\<open>os.environ.get("PATH", "")\<close> is the empty string when the variable is unset.
\<close>

fun findinpath_loop :: "os_view \<Rightarrow> string \<Rightarrow> string list \<Rightarrow> string option" where
  "findinpath_loop os cmd [] = None"
| "findinpath_loop os cmd (directory # pathdirs) =
     (let fullpath = os_path_join directory cmd in
      if os_path_exists os fullpath \<and> os_access_X_OK os fullpath then Some fullpath
      else findinpath_loop os cmd pathdirs)"

definition pathdirs_of :: "os_view \<Rightarrow> string list" where
  "pathdirs_of os =
     split_on os_pathsep (case environ_PATH os of None \<Rightarrow> [] | Some v \<Rightarrow> v)"

definition findinpath :: "os_view \<Rightarrow> string \<Rightarrow> string option" where
  "findinpath os cmd = findinpath_loop os cmd (pathdirs_of os)"

text \<open>The truth value Python gives an \<^verbatim>\<open>Optional[str]\<close>: \<^verbatim>\<open>None\<close> and the empty
  string are false.\<close>

definition truthy :: "string option \<Rightarrow> bool" where
  "truthy r = (case r of None \<Rightarrow> False | Some p \<Rightarrow> p \<noteq> [])"

subsection \<open>The builtin commands\<close>

text \<open>
  The five subclasses of \<^verbatim>\<open>ShellCommand\<close>. The registry is the dictionary
  \<^verbatim>\<open>self.builtins\<close>, kept as an association list in insertion order (the completer
  iterates over its keys). \<^verbatim>\<open>TypeCommand\<close> holds a reference to the registry it is
  stored in, so its \<^verbatim>\<open>execute\<close> takes the registry as an argument.
\<close>

datatype command = ExitCommand | EchoCommand | TypeCommand | PwdCommand | CdCommand

type_synonym registry = "(string \<times> command) list"

definition registry_keys :: "registry \<Rightarrow> string list" where
  "registry_keys b = map fst b"

text \<open>\<^verbatim>\<open>ExitCommand.execute\<close>: \<^verbatim>\<open>sys.exit(code)\<close> raises \<^verbatim>\<open>SystemExit\<close>, which the handler
  for \<^verbatim>\<open>ValueError\<close> does not catch.\<close>

definition ExitCommand_execute :: "string list \<Rightarrow> proc_state \<Rightarrow> outcome" where
  "ExitCommand_execute args st =
     (case (case args of [] \<Rightarrow> Some 0 | a # _ \<Rightarrow> py_int a) of
        Some code \<Rightarrow> Raises (SystemExit code) st
      | None \<Rightarrow> Returns (py_print ''exit: Invalid exit code'' st))"

definition EchoCommand_execute :: "string list \<Rightarrow> proc_state \<Rightarrow> outcome" where
  "EchoCommand_execute args st = Returns (py_print (str_join '' '' args) st)"

definition TypeCommand_execute ::
  "registry \<Rightarrow> os_view \<Rightarrow> string list \<Rightarrow> proc_state \<Rightarrow> outcome" where
  "TypeCommand_execute builtins os args st =
     (case args of
        [] \<Rightarrow> Returns (py_print ''type: usage: type <command>'' st)
      | cmd # _ \<Rightarrow>
          (let st1 = py_print_noend cmd st in
           if cmd \<in> set (registry_keys builtins)
           then Returns (py_print '' is a shell builtin'' st1)
           else (let path = findinpath os cmd in
                 if truthy path
                 then Returns (py_print ('' is '' @ the path) st1)
                 else Returns (py_print '': not found'' st1))))"

definition PwdCommand_execute :: "string list \<Rightarrow> proc_state \<Rightarrow> outcome" where
  "PwdCommand_execute args st = Returns (py_print (cwd st) st)"

text \<open>\<^verbatim>\<open>CdCommand.execute\<close>: the three handlers in the order of the source.\<close>

definition CdCommand_execute :: "os_view \<Rightarrow> string list \<Rightarrow> proc_state \<Rightarrow> outcome" where
  "CdCommand_execute os args st =
     (let path = (case args of [] \<Rightarrow> expanduser_home os | a # _ \<Rightarrow> a) in
      case sys_chdir os path of
        Inr newcwd \<Rightarrow> Returns (st\<lparr>cwd := newcwd\<rparr>)
      | Inl (FileNotFoundError m) \<Rightarrow>
          Returns (py_print (''cd: '' @ path @ '': No such file or directory'') st)
      | Inl (NotADirectoryError m) \<Rightarrow>
          Returns (py_print (''cd: '' @ path @ '': Not a directory'') st)
      | Inl (OtherOSError m) \<Rightarrow>
          Returns (py_print (''cd: '' @ path @ '': '' @ m) st))"

text \<open>The dynamic dispatch of \<^verbatim>\<open>command.execute(args)\<close>.\<close>

fun execute :: "registry \<Rightarrow> os_view \<Rightarrow> command \<Rightarrow> string list \<Rightarrow> proc_state \<Rightarrow> outcome" where
  "execute builtins os ExitCommand args st = ExitCommand_execute args st"
| "execute builtins os EchoCommand args st = EchoCommand_execute args st"
| "execute builtins os TypeCommand args st = TypeCommand_execute builtins os args st"
| "execute builtins os PwdCommand args st = PwdCommand_execute args st"
| "execute builtins os CdCommand args st = CdCommand_execute os args st"

subsection \<open>\<^verbatim>\<open>Completer\<close>\<close>

text \<open>
  The completer keeps the registry and, once a call with state 0 has assigned it, the
  list \<^verbatim>\<open>self.matches\<close>; \<open>None\<close> is the attribute that does not exist yet.
\<close>

record completer =
  completer_builtins :: registry
  matches :: "string list option"

definition Completer_init :: "registry \<Rightarrow> completer" where
  "Completer_init builtins = \<lparr>completer_builtins = builtins, matches = None\<rparr>"

text \<open>A call of \<^verbatim>\<open>complete\<close> gives a candidate or \<^verbatim>\<open>None\<close>, or raises; either way the
  completer lives on.\<close>

type_synonym complete_result = "(py_exception + string option) \<times> completer"

text \<open>The last statement of \<^verbatim>\<open>complete\<close>: \<^verbatim>\<open>self.matches[state]\<close>, with \<^verbatim>\<open>None\<close> for an
  \<^verbatim>\<open>IndexError\<close>; reading an attribute that does not exist raises \<^verbatim>\<open>AttributeError\<close>.\<close>

definition return_match :: "completer \<Rightarrow> int \<Rightarrow> complete_result" where
  "return_match self state =
     (case matches self of
        None \<Rightarrow> (Inl AttributeError, self)
      | Some ms \<Rightarrow> (Inr (py_index ms state), self))"

text \<open>The loop over \<^verbatim>\<open>target.split("/")\<close>.\<close>

fun walk_components :: "path \<Rightarrow> string list \<Rightarrow> path" where
  "walk_components current_path [] = current_path"
| "walk_components current_path (component # rest) =
     walk_components
       (if component = ''..'' then path_parent current_path
        else if component \<noteq> [] \<and> component \<noteq> ''.'' then path_child current_path component
        else current_path)
       rest"

text \<open>The directory the \<^verbatim>\<open>cd\<close> branch lists for the last token \<open>target\<close>.\<close>

definition cd_directory :: "os_view \<Rightarrow> string \<Rightarrow> path" where
  "cd_directory os target =
     (let current_path =
            (if startswith target ''/'' then walk_components Path_root (split_on CHR ''/'' (tl target))
             else walk_components Path_dot (split_on CHR ''/'' target))
      in if \<not> path_is_dir os current_path
         then (if path_is_dir os (path_parent current_path) then path_parent current_path
               else Path_dot)
         else current_path)"

text \<open>The list comprehension of both branches for two or more tokens: the entries of
  \<open>current_path\<close> whose name starts with \<open>token\<close>, a slash added to directories.\<close>

definition entry_text :: "os_view \<Rightarrow> path \<Rightarrow> string" where
  "entry_text os p = (if path_is_dir os p then path_str p @ ''/'' else path_str p)"

definition path_matches :: "os_view \<Rightarrow> path \<Rightarrow> string \<Rightarrow> os_error + string list" where
  "path_matches os current_path token =
     (case path_iterdir os current_path of
        Inl e \<Rightarrow> Inl e
      | Inr ps \<Rightarrow> Inr (map (entry_text os) (filter (\<lambda>p. startswith (path_name p) token) ps)))"

text \<open>The candidates a call with state 0 computes from the buffer, by the number of
  tokens; an error of a directory listing leaves \<^verbatim>\<open>self.matches\<close> as it was.\<close>

definition compute_matches :: "os_view \<Rightarrow> registry \<Rightarrow> string list \<Rightarrow> os_error + string list" where
  "compute_matches os builtins parts =
     (if parts = [] then
        (case path_iterdir os Path_dot of
           Inl e \<Rightarrow> Inl e
         | Inr ps \<Rightarrow> Inr (registry_keys builtins @ map path_name ps))
      else if length parts = 1 then
        (case path_iterdir os Path_dot of
           Inl e \<Rightarrow> Inl e
         | Inr ps \<Rightarrow>
             Inr (filter (\<lambda>cmd. startswith cmd (parts ! 0)) (registry_keys builtins) @
                  filter (\<lambda>n. startswith n (parts ! 0)) (map path_name ps)))
      else if parts ! (length parts - 2) = ''cd'' then
        path_matches os (cd_directory os (last parts)) (last parts)
      else path_matches os Path_dot (last parts))"

definition complete :: "os_view \<Rightarrow> completer \<Rightarrow> string \<Rightarrow> int \<Rightarrow> complete_result" where
  "complete os self text state =
     (if state = 0 then
        (case compute_matches os (completer_builtins self) (split_ws text) of
           Inl e \<Rightarrow> (Inl (OSError e), self)
         | Inr ms \<Rightarrow>
             (let self1 = self\<lparr>matches := Some ms\<rparr> in
              if split_ws text = []
              then (Inr (if state < int (length ms) then Some (ms ! nat state) else None), self1)
              else return_match self1 state))
      else return_match self state)"

subsection \<open>\<^verbatim>\<open>Shell\<close>\<close>

definition initializebuiltins :: registry where
  "initializebuiltins =
     [(''exit'', ExitCommand), (''echo'', EchoCommand), (''pwd'', PwdCommand),
      (''cd'', CdCommand), (''type'', TypeCommand)]"

record shell =
  shell_builtins :: registry
  shell_completer :: completer

definition Shell_init :: shell where
  "Shell_init =
     \<lparr>shell_builtins = initializebuiltins, shell_completer = Completer_init initializebuiltins\<rparr>"

text \<open>
  \<^verbatim>\<open>executeexternalcommand\<close>: with \<^verbatim>\<open>check=True\<close> a child that ends with a code other
  than zero raises \<^verbatim>\<open>CalledProcessError\<close>, whose handler prints the captured standard
  error. \<^verbatim>\<open>subprocess.run\<close> on an empty argument list raises \<^verbatim>\<open>IndexError\<close>, which no
  handler here catches.
\<close>

definition executeexternalcommand :: "os_view \<Rightarrow> string list \<Rightarrow> proc_state \<Rightarrow> outcome" where
  "executeexternalcommand os tokens st =
     (case tokens of
        [] \<Rightarrow> Raises IndexError st
      | name # _ \<Rightarrow>
          (case sys_run os tokens of
             Inr result \<Rightarrow>
               if returncode result = 0 then Returns (py_print_noend (cp_stdout result) st)
               else Returns (py_print_noend (cp_stderr result) st)
           | Inl (FileNotFoundError m) \<Rightarrow> Returns (py_print (name @ '': command not found'') st)
           | Inl e \<Rightarrow> Returns (py_print (''Error executing '' @ name @ '': '' @ os_error_str e) st)))"

definition processinput :: "shell \<Rightarrow> os_view \<Rightarrow> string \<Rightarrow> proc_state \<Rightarrow> outcome" where
  "processinput self os inputstr st =
     (case split_ws (strip inputstr) of
        [] \<Rightarrow> Returns st
      | cmdname # cmdargs \<Rightarrow>
          (case map_of (shell_builtins self) cmdname of
             Some c \<Rightarrow> execute (shell_builtins self) os c cmdargs st
           | None \<Rightarrow>
               if truthy (findinpath os cmdname)
               then executeexternalcommand os (cmdname # cmdargs) st
               else Returns (py_print (cmdname @ '': command not found'') st)))"

subsection \<open>A small world for concrete runs\<close>

text \<open>
  A working directory \<^verbatim>\<open>/home/user\<close> that holds the directory \<^verbatim>\<open>sub\<close> (with the file
  \<^verbatim>\<open>file\<close> inside), the file \<^verbatim>\<open>notes.txt\<close> and the executable \<^verbatim>\<open>tool\<close>; the
  executables \<^verbatim>\<open>/bin/ls\<close> and \<^verbatim>\<open>/usr/bin/env\<close>; and the search path
  \<^verbatim>\<open>/usr/bin:/bin\<close>. \<^verbatim>\<open>ls\<close> succeeds without arguments and fails with one.
\<close>

definition example_os :: os_view where
  "example_os =
     \<lparr>environ_PATH = Some ''/usr/bin:/bin'',
      fs_exists = (\<lambda>p. p \<in> set [''/bin/ls'', ''/usr/bin/env'', ''tool'', ''sub'',
                                  ''sub/file'', ''notes.txt'', ''.'', ''/'']),
      fs_access_X_OK = (\<lambda>p. p \<in> set [''/bin/ls'', ''/usr/bin/env'', ''tool'', ''sub'', ''.'', ''/'']),
      fs_is_dir = (\<lambda>p. p \<in> set [''.'', ''sub'', ''/'', ''/bin'', ''/usr'', ''/usr/bin'']),
      fs_listdir = (\<lambda>p. if p = ''.'' then Inr [''sub'', ''notes.txt'', ''tool'']
                         else if p = ''sub'' then Inr [''file'']
                         else if p = ''/'' then Inr [''bin'', ''usr'']
                         else Inl (FileNotFoundError ''[Errno 2] No such file or directory'')),
      expanduser_home = ''/home/user'',
      sys_chdir = (\<lambda>p. if p = ''sub'' then Inr ''/home/user/sub''
                        else if p = ''/home/user'' then Inr ''/home/user''
                        else if p = ''notes.txt'' then Inl (NotADirectoryError ''[Errno 20] Not a directory'')
                        else if p = ''locked'' then Inl (OtherOSError ''[Errno 13] Permission denied'')
                        else Inl (FileNotFoundError ''[Errno 2] No such file or directory'')),
      sys_run = (\<lambda>tokens. if tokens = [''/bin/ls'']
                             then Inr \<lparr>returncode = 0, cp_stdout = ''notes.txt sub tool'', cp_stderr = []\<rparr>
                           else if tokens = [''/bin/ls'', ''nowhere'']
                             then Inr \<lparr>returncode = 2, cp_stdout = ''partial'', cp_stderr = ''ls: nowhere''\<rparr>
                           else Inl (FileNotFoundError ''[Errno 2] No such file or directory''))\<rparr>"

definition example_state :: proc_state where
  "example_state = \<lparr>stdout = [], cwd = ''/home/user''\<rparr>"

section \<open>Properties\<close>

subsection \<open>Splitting the search path and joining paths\<close>

lemma split_on_not_Nil: "split_on sep s \<noteq> []"
  by (induction s) (auto split: list.splits)

lemma split_on_Nil: "split_on sep [] = [[]]"
  by simp

lemma pathdirs_of_not_Nil: "pathdirs_of os \<noteq> []"
  by (simp add: pathdirs_of_def split_on_not_Nil)

lemma pathdirs_of_unset:
  "environ_PATH os = None \<or> environ_PATH os = Some [] \<Longrightarrow> pathdirs_of os = [[]]"
  by (auto simp: pathdirs_of_def)

lemma os_path_join_absolute: "startswith cmd ''/'' \<Longrightarrow> os_path_join d cmd = cmd"
  by (simp add: os_path_join_def)

lemma os_path_join_empty_dir: "os_path_join [] cmd = cmd"
  by (simp add: os_path_join_def)

lemma findinpath_loop_find:
  "findinpath_loop os cmd ds =
     find (\<lambda>p. os_path_exists os p \<and> os_access_X_OK os p) (map (\<lambda>d. os_path_join d cmd) ds)"
  by (induction ds) (simp_all add: Let_def)

lemma findinpath_loop_None:
  "findinpath_loop os cmd ds = None \<longleftrightarrow>
     (\<forall>d \<in> set ds. \<not> (os_path_exists os (os_path_join d cmd) \<and> os_access_X_OK os (os_path_join d cmd)))"
  by (induction ds) (auto simp: Let_def)

lemma findinpath_loop_Some:
  "findinpath_loop os cmd ds = Some p \<longleftrightarrow>
     (\<exists>i < length ds. p = os_path_join (ds ! i) cmd \<and> os_path_exists os p \<and> os_access_X_OK os p
        \<and> (\<forall>j < i. \<not> (os_path_exists os (os_path_join (ds ! j) cmd)
                        \<and> os_access_X_OK os (os_path_join (ds ! j) cmd))))"
  unfolding findinpath_loop_find find_Some_iff by (auto simp: )

lemma findinpath_Some_nonempty: "findinpath os cmd = Some p \<Longrightarrow> p \<noteq> []"
  by (auto simp: findinpath_def findinpath_loop_Some os_path_exists_def)

lemma truthy_findinpath: "truthy (findinpath os cmd) \<longleftrightarrow> findinpath os cmd \<noteq> None"
  by (cases "findinpath os cmd") (auto simp: truthy_def dest: findinpath_Some_nonempty)

subsection \<open>Tokens\<close>

text \<open>Every token of \<^verbatim>\<open>str.split()\<close> is non-empty and free of whitespace, and
  stripping the line first changes nothing.\<close>

lemma split_ws_from_tokens:
  "\<forall>c \<in> set cur. \<not> isspace c \<Longrightarrow>
     \<forall>t \<in> set (split_ws_from cur s). t \<noteq> [] \<and> (\<forall>c \<in> set t. \<not> isspace c)"
proof (induction s arbitrary: cur)
  case Nil
  then show ?case by simp
next
  case (Cons a s)
  have nil: "\<forall>t \<in> set (split_ws_from [] s). t \<noteq> [] \<and> (\<forall>c \<in> set t. \<not> isspace c)"
    by (rule Cons.IH) simp
  show ?case
  proof (cases "isspace a")
    case True
    then show ?thesis using nil Cons.prems by auto
  next
    case False
    then have "\<forall>c \<in> set (cur @ [a]). \<not> isspace c" using Cons.prems by simp
    then have "\<forall>t \<in> set (split_ws_from (cur @ [a]) s). t \<noteq> [] \<and> (\<forall>c \<in> set t. \<not> isspace c)"
      by (rule Cons.IH)
    then show ?thesis using False by simp
  qed
qed

lemma split_ws_tokens:
  "t \<in> set (split_ws s) \<Longrightarrow> t \<noteq> [] \<and> (\<forall>c \<in> set t. \<not> isspace c)"
  unfolding split_ws_def using split_ws_from_tokens [of "[]" s] by simp

lemma split_ws_from_all_space:
  "\<forall>c \<in> set ws. isspace c \<Longrightarrow> split_ws_from cur ws = (if cur = [] then [] else [cur])"
  by (induction ws arbitrary: cur) auto

lemma split_ws_from_append_space:
  "\<forall>c \<in> set ws. isspace c \<Longrightarrow> split_ws_from cur (s @ ws) = split_ws_from cur s"
  by (induction s arbitrary: cur) (auto simp: split_ws_from_all_space)

lemma split_ws_from_dropWhile:
  "split_ws_from [] (dropWhile isspace s) = split_ws_from [] s"
  by (induction s) auto

lemma rstrip_decompose:
  "s = rev (dropWhile isspace (rev s)) @ rev (takeWhile isspace (rev s))"
proof -
  have "rev (takeWhile isspace (rev s) @ dropWhile isspace (rev s)) = s"
    by (simp only: takeWhile_dropWhile_id rev_rev_ident)
  then show ?thesis by (simp only: rev_append)
qed

lemma split_ws_from_rstrip:
  "split_ws_from cur (rev (dropWhile isspace (rev s))) = split_ws_from cur s"
proof -
  have sp: "\<forall>c \<in> set (rev (takeWhile isspace (rev s))). isspace c"
    by (auto dest: set_takeWhileD)
  have "split_ws_from cur s =
        split_ws_from cur (rev (dropWhile isspace (rev s)) @ rev (takeWhile isspace (rev s)))"
    using rstrip_decompose [of s] by simp
  also have "\<dots> = split_ws_from cur (rev (dropWhile isspace (rev s)))"
    using sp by (rule split_ws_from_append_space)
  finally show ?thesis by simp
qed

lemma split_ws_strip: "split_ws (strip s) = split_ws s"
  by (simp add: split_ws_def strip_def split_ws_from_rstrip split_ws_from_dropWhile)

subsection \<open>Which calls return\<close>

lemma executeexternalcommand_returns:
  "\<exists>st'. executeexternalcommand os (name # args) st = Returns st'"
  by (auto simp: executeexternalcommand_def split: sum.splits os_error.splits)

lemma CdCommand_execute_returns: "\<exists>st'. CdCommand_execute os args st = Returns st'"
  by (auto simp: CdCommand_execute_def Let_def split: sum.splits os_error.splits)

lemma TypeCommand_execute_returns: "\<exists>st'. TypeCommand_execute b os args st = Returns st'"
  by (auto simp: TypeCommand_execute_def Let_def split: list.splits)

lemma execute_returns_or_exits:
  "(\<exists>st'. execute b os c args st = Returns st') \<or>
   (c = ExitCommand \<and> (\<exists>code. (case args of [] \<Rightarrow> Some 0 | a # _ \<Rightarrow> py_int a) = Some code
       \<and> execute b os c args st = Raises (SystemExit code) st))"
proof (cases c)
  case ExitCommand
  then show ?thesis
    by (cases "case args of [] \<Rightarrow> Some 0 | a # _ \<Rightarrow> py_int a")
       (simp_all add: ExitCommand_execute_def)
next
  case EchoCommand
  then show ?thesis by (simp add: EchoCommand_execute_def)
next
  case TypeCommand
  then show ?thesis using TypeCommand_execute_returns [of b os args st] by simp
next
  case PwdCommand
  then show ?thesis by (simp add: PwdCommand_execute_def)
next
  case CdCommand
  then show ?thesis using CdCommand_execute_returns [of os args st] by simp
qed

subsection \<open>Claim C2: \<^verbatim>\<open>findinpath\<close> returns the first executable match\<close>

text \<open>
  Claim C2 says that \<^verbatim>\<open>findinpath\<close> splits the search path on the path separator,
  scans the directories in listed order and returns the first joined path that exists
  and is executable, and that it returns \<^verbatim>\<open>None\<close> whenever the variable is unset or
  empty, or no directory yields a match. The last part fails on the code as stated.
  What holds: \<^verbatim>\<open>findinpath\<close> is the first element, in listed order, of the joined paths
  \<^verbatim>\<open>os.path.join(directory, name)\<close> that exists and is executable; it is \<^verbatim>\<open>None\<close>
  exactly when no listed directory yields such a path; and an unset or empty variable
  is the list of one empty directory, whose joined path is the name itself, so that
  the result is then the name when the name itself exists and is executable, and
  \<^verbatim>\<open>None\<close> otherwise.
\<close>

theorem findinpath_first_match:
  "findinpath os cmd =
     find (\<lambda>p. os_path_exists os p \<and> os_access_X_OK os p)
          (map (\<lambda>d. os_path_join d cmd) (pathdirs_of os))
   \<and> (findinpath os cmd = Some p \<longleftrightarrow>
        (\<exists>i < length (pathdirs_of os).
            p = os_path_join (pathdirs_of os ! i) cmd
          \<and> os_path_exists os p \<and> os_access_X_OK os p
          \<and> (\<forall>j < i. \<not> (os_path_exists os (os_path_join (pathdirs_of os ! j) cmd)
                          \<and> os_access_X_OK os (os_path_join (pathdirs_of os ! j) cmd)))))
   \<and> (findinpath os cmd = None \<longleftrightarrow>
        (\<forall>d \<in> set (pathdirs_of os).
            \<not> (os_path_exists os (os_path_join d cmd) \<and> os_access_X_OK os (os_path_join d cmd))))
   \<and> (environ_PATH os = None \<or> environ_PATH os = Some [] \<longrightarrow>
        pathdirs_of os = [[]]
      \<and> findinpath os cmd =
          (if os_path_exists os cmd \<and> os_access_X_OK os cmd then Some cmd else None))"
proof (intro conjI impI)
  show "findinpath os cmd =
     find (\<lambda>p. os_path_exists os p \<and> os_access_X_OK os p)
          (map (\<lambda>d. os_path_join d cmd) (pathdirs_of os))"
    by (simp add: findinpath_def findinpath_loop_find)
  show "findinpath os cmd = Some p \<longleftrightarrow>
        (\<exists>i < length (pathdirs_of os).
            p = os_path_join (pathdirs_of os ! i) cmd
          \<and> os_path_exists os p \<and> os_access_X_OK os p
          \<and> (\<forall>j < i. \<not> (os_path_exists os (os_path_join (pathdirs_of os ! j) cmd)
                          \<and> os_access_X_OK os (os_path_join (pathdirs_of os ! j) cmd))))"
    unfolding findinpath_def by (rule findinpath_loop_Some)
  show "findinpath os cmd = None \<longleftrightarrow>
        (\<forall>d \<in> set (pathdirs_of os).
            \<not> (os_path_exists os (os_path_join d cmd) \<and> os_access_X_OK os (os_path_join d cmd)))"
    unfolding findinpath_def by (rule findinpath_loop_None)
next
  assume unset: "environ_PATH os = None \<or> environ_PATH os = Some []"
  then show dirs: "pathdirs_of os = [[]]" by (rule pathdirs_of_unset)
  show "findinpath os cmd =
          (if os_path_exists os cmd \<and> os_access_X_OK os cmd then Some cmd else None)"
    by (simp add: findinpath_def dirs os_path_join_empty_dir)
qed

text \<open>Claim C2, a concrete run: the search path \<^verbatim>\<open>/usr/bin:/bin\<close> finds \<^verbatim>\<open>ls\<close> in its
  second directory and does not find \<^verbatim>\<open>tool\<close>; with an empty search path \<^verbatim>\<open>tool\<close> is
  found in the working directory.\<close>

theorem findinpath_first_match_witness:
  "pathdirs_of example_os = [''/usr/bin'', ''/bin'']
   \<and> findinpath example_os ''ls'' = Some ''/bin/ls''
   \<and> findinpath example_os ''tool'' = None
   \<and> findinpath (example_os\<lparr>environ_PATH := Some []\<rparr>) ''tool'' = Some ''tool''
   \<and> findinpath (example_os\<lparr>environ_PATH := Some []\<rparr>) ''ls'' = None"
proof -
  have dirs: "pathdirs_of example_os = [''/usr/bin'', ''/bin'']"
    by (simp add: pathdirs_of_def example_os_def os_pathsep_def)
  have ex: "os_path_exists example_os ''/bin/ls''" "\<not> os_path_exists example_os ''/usr/bin/ls''"
    "\<not> os_path_exists example_os ''/usr/bin/tool''" "\<not> os_path_exists example_os ''/bin/tool''"
    "os_access_X_OK example_os ''/bin/ls''"
    by (simp_all add: os_path_exists_def os_access_X_OK_def example_os_def)
  have joins: "os_path_join ''/usr/bin'' ''ls'' = ''/usr/bin/ls''"
    "os_path_join ''/bin'' ''ls'' = ''/bin/ls''"
    "os_path_join ''/usr/bin'' ''tool'' = ''/usr/bin/tool''"
    "os_path_join ''/bin'' ''tool'' = ''/bin/tool''"
    by (simp_all add: os_path_join_def startswith_def)
  have "findinpath example_os ''ls'' =
      find (\<lambda>p. os_path_exists example_os p \<and> os_access_X_OK example_os p)
           (map (\<lambda>d. os_path_join d ''ls'') (pathdirs_of example_os))"
    using findinpath_first_match [of example_os "''ls''" "[]"] by (rule conjunct1)
  then have ls: "findinpath example_os ''ls'' = Some ''/bin/ls''"
    by (simp add: dirs joins ex)
  have "findinpath example_os ''tool'' =
      find (\<lambda>p. os_path_exists example_os p \<and> os_access_X_OK example_os p)
           (map (\<lambda>d. os_path_join d ''tool'') (pathdirs_of example_os))"
    using findinpath_first_match [of example_os "''tool''" "[]"] by (rule conjunct1)
  then have tool: "findinpath example_os ''tool'' = None"
    by (simp add: dirs joins ex)
  have empty: "environ_PATH (example_os\<lparr>environ_PATH := Some []\<rparr>) = None
      \<or> environ_PATH (example_os\<lparr>environ_PATH := Some []\<rparr>) = Some []"
    by simp
  have here: "os_path_exists (example_os\<lparr>environ_PATH := Some []\<rparr>) ''tool''"
    "os_access_X_OK (example_os\<lparr>environ_PATH := Some []\<rparr>) ''tool''"
    "\<not> os_path_exists (example_os\<lparr>environ_PATH := Some []\<rparr>) ''ls''"
    by (simp_all add: os_path_exists_def os_access_X_OK_def example_os_def)
  note unset_case =
    findinpath_first_match [THEN conjunct2, THEN conjunct2, THEN conjunct2, THEN mp, OF empty,
      THEN conjunct2]
  have tool': "findinpath (example_os\<lparr>environ_PATH := Some []\<rparr>) ''tool'' = Some ''tool''"
    using unset_case [of "''tool''"] here by simp
  have ls': "findinpath (example_os\<lparr>environ_PATH := Some []\<rparr>) ''ls'' = None"
    using unset_case [of "''ls''"] here by simp
  from dirs ls tool tool' ls' show ?thesis by simp
qed

text \<open>Claim C2 as stated fails: with the variable unset, and with it empty, the
  executable \<^verbatim>\<open>tool\<close> of the working directory is returned, not \<^verbatim>\<open>None\<close>.\<close>

theorem findinpath_unset_PATH_counterexample:
  "environ_PATH (example_os\<lparr>environ_PATH := None\<rparr>) = None
   \<and> findinpath (example_os\<lparr>environ_PATH := None\<rparr>) ''tool'' = Some ''tool''
   \<and> environ_PATH (example_os\<lparr>environ_PATH := Some []\<rparr>) = Some []
   \<and> findinpath (example_os\<lparr>environ_PATH := Some []\<rparr>) ''tool'' = Some ''tool''"
  by (simp add: findinpath_def pathdirs_of_def os_path_join_def startswith_def
      os_path_exists_def os_access_X_OK_def example_os_def)

subsection \<open>Claim C10: an absolute command name resolves to itself\<close>

lemma startswith_slash: "startswith cmd ''/'' \<longleftrightarrow> (\<exists>rest. cmd = CHR ''/'' # rest)"
  by (cases cmd) (simp_all add: startswith_def)

lemma initializebuiltins_no_absolute:
  assumes "startswith cmd ''/''"
  shows "map_of initializebuiltins cmd = None"
proof -
  from assms obtain rest where "cmd = CHR ''/'' # rest"
    unfolding startswith_slash by blast
  then show ?thesis by (simp add: initializebuiltins_def)
qed

text \<open>
  Claim C10: for a command name that is an absolute path and a search path that is not
  empty, if the path exists and is executable then \<^verbatim>\<open>findinpath\<close> returns the name
  unchanged, whatever directories are listed, and a line whose first token is that
  name is run as an external command.
\<close>

theorem findinpath_absolute:
  assumes abs: "startswith cmd ''/''"
    and path: "environ_PATH os = Some v" "v \<noteq> []"
    and ok: "os_path_exists os cmd" "os_access_X_OK os cmd"
  shows "findinpath os cmd = Some cmd
       \<and> (\<forall>inputstr args st. split_ws (strip inputstr) = cmd # args \<longrightarrow>
            processinput Shell_init os inputstr st = executeexternalcommand os (cmd # args) st)"
proof -
  obtain d ds where dirs: "pathdirs_of os = d # ds"
    using pathdirs_of_not_Nil [of os] by (cases "pathdirs_of os") simp_all
  have found: "findinpath os cmd = Some cmd"
    using ok by (simp add: findinpath_def dirs os_path_join_absolute [OF abs])
  have tr: "truthy (findinpath os cmd)"
    unfolding truthy_findinpath using found by simp
  have nb: "map_of (shell_builtins Shell_init) cmd = None"
    using initializebuiltins_no_absolute [OF abs] by (simp add: Shell_init_def)
  have "processinput Shell_init os inputstr st = executeexternalcommand os (cmd # args) st"
    if toks: "split_ws (strip inputstr) = cmd # args" for inputstr args st
    unfolding processinput_def using toks nb tr by simp
  with found show ?thesis by blast
qed

text \<open>Claim C10, a concrete run: \<^verbatim>\<open>/bin/ls nowhere\<close>.\<close>

theorem findinpath_absolute_witness:
  "findinpath example_os ''/bin/ls'' = Some ''/bin/ls''
   \<and> processinput Shell_init example_os ''/bin/ls nowhere'' example_state
       = executeexternalcommand example_os [''/bin/ls'', ''nowhere''] example_state"
proof -
  have abs: "startswith ''/bin/ls'' ''/''" by (simp add: startswith_def)
  have path: "environ_PATH example_os = Some ''/usr/bin:/bin''" "''/usr/bin:/bin'' \<noteq> []"
    by (simp_all add: example_os_def)
  have ok: "os_path_exists example_os ''/bin/ls''" "os_access_X_OK example_os ''/bin/ls''"
    by (simp_all add: os_path_exists_def os_access_X_OK_def example_os_def)
  have toks: "split_ws (strip ''/bin/ls nowhere'') = [''/bin/ls'', ''nowhere'']"
    by (simp add: split_ws_def strip_def isspace_def)
  from findinpath_absolute [OF abs path ok] toks show ?thesis by blast
qed

end
